theory Spec2Isabelle
  imports Complex_Main "HOL-Library.Char_ord" "HOL-Library.List_Lexorder"
    "HOL-Library.Product_Lexorder"
begin

section \<open>Values and exceptions\<close>

text \<open>
  A Python float is a finite double, an infinity or NaN. A finite double is modelled by
  the number it denotes, so the comparisons of the source are exact; the arithmetic of
  the statistics is the arithmetic of the reals (rounding is not modelled).
\<close>

datatype pyfloat = Fin real | PInf | NInf | NaN

text \<open>The values that cross the boundary to the store and to the backup file.\<close>

datatype pyval = PNone | PStr string | PInt int | PFloat pyfloat | PBool bool

text \<open>
  The exceptions the program meets. \<open>Error\<close> is \<open>mysql.connector.Error\<close>, the only
  class the \<open>except Error\<close> clauses of the source catch; the others are Python's
  built-in classes of the same names. The \<open>RuntimeError\<close> that \<open>execute\<close> raises with the
  message \<open>DB connection failed\<close> is the program's error for a store that cannot be
  reached.
\<close>

datatype exn =
    Error string
  | RuntimeError string
  | ValueError string
  | TypeError
  | KeyError string
  | EOFError

section \<open>The record, the store and the process state\<close>

text \<open>The dataclass \<open>Student\<close>.\<close>

record Student =
  roll_no :: string
  name :: string
  marks :: pyfloat
  grade :: string

text \<open>
  One row of the table \<open>students(roll_no, name, marks, grade)\<close>. The column types are
  not declared in the repository, so a row holds the value each column was given; the
  conversions and collations of the server are not modelled.
\<close>

record dbrow =
  c_roll_no :: pyval
  c_name :: pyval
  c_marks :: pyval
  c_grade :: pyval

text \<open>
  A fetched row is a dictionary from column names to values, in column order
  (\<open>cursor(dictionary=True)\<close>).
\<close>

type_synonym dict = "(string \<times> pyval) list"

datatype column = ColName | ColMarks | ColGrade

text \<open>The statements the source sends, each with its bound parameters.\<close>

datatype stmt =
    InsertStudent pyval pyval pyval pyval
  | SelectAllOrderByRoll
  | SelectWhereRoll pyval
  | UpdateSet "(column \<times> pyval) list" pyval
  | DeleteWhereRoll pyval
  | SelectRollNameMarks
  | SelectMarks

text \<open>The content of a file: a delimited table (header and data lines), or something else.\<close>

datatype fcontent = Table "string list" "string list list" | Garbage

text \<open>What \<open>print\<close> writes, one constructor for each message of the source.\<close>

datatype line =
    DbConnectionError
  | StudentAdded
  | ErrorAdding string
  | NoStudentsFound
  | PrintRows "dict list"
  | ErrorFetching string
  | ErrorLookup string
  | StudentNotFound
  | NothingToUpdate
  | StudentUpdated
  | ErrorUpdating string
  | StudentDeleted
  | ErrorDeleting string
  | NothingToBackup
  | BackupSaved string
  | BackupError
  | CsvNotFound
  | CouldNotReadCsv
  | ErrorRestoringRow string
  | RestoreComplete
  | NoDataForStats
  | MeanMarks pyfloat
  | MedianMarks pyfloat
  | StdDeviation pyfloat
  | StdDeviationNA
  | Toppers "dict list"
  | NoMarksToPlot
  | ShowHistogram "pyval list"
  | Menu
  | NotFound
  | LeaveBlankToSkip
  | DeleteCancelled
  | Exiting
  | InvalidChoice
  | InputError string
  | UnexpectedError exn

text \<open>
  The state of the process and of what it talks to. \<open>table\<close> is the store's content in
  the order a scan without \<open>ORDER BY\<close> returns it. \<open>conn\<close> says that the gateway holds a
  connection that answers \<open>is_connected()\<close>. \<open>server\<close> lists the answers to the next
  connection attempts (when it runs out, the server accepts), and \<open>faults\<close> the fate of
  the next statements (\<open>Some m\<close>: the statement fails with the storage error \<open>m\<close>).
  \<open>sent\<close> is the server's log of the statements it has received. \<open>writable\<close> says
  that files can be written.
\<close>

record world =
  table :: "dbrow list"
  conn :: bool
  server :: "bool list"
  faults :: "string option list"
  sent :: "stmt list"
  files :: "(string \<times> fcontent) list"
  writable :: bool
  stdin :: "string list"
  out :: "line list"

definition say :: "line \<Rightarrow> world \<Rightarrow> world" where
  "say l w = w\<lparr>out := out w @ [l]\<rparr>"

section \<open>The store's statements\<close>

definition row_dict :: "dbrow \<Rightarrow> dict" where
  "row_dict r =
     [(''roll_no'', c_roll_no r), (''name'', c_name r), (''marks'', c_marks r),
      (''grade'', c_grade r)]"

text \<open>A row of \<open>SELECT roll_no, name, marks\<close>.\<close>

definition roll_name_marks :: "dbrow \<Rightarrow> dict" where
  "roll_name_marks r =
     [(''roll_no'', c_roll_no r), (''name'', c_name r), (''marks'', c_marks r)]"

text \<open>\<open>ORDER BY roll_no\<close>: text keys in string order; the sort is stable.\<close>

fun roll_key :: "pyval \<Rightarrow> string" where
  "roll_key (PStr s) = s"
| "roll_key _ = []"

definition by_roll :: "dbrow list \<Rightarrow> dbrow list" where
  "by_roll t = sort_key (\<lambda>r. roll_key (c_roll_no r)) t"

fun assign :: "dbrow \<Rightarrow> column \<times> pyval \<Rightarrow> dbrow" where
  "assign r (ColName, v) = r\<lparr>c_name := v\<rparr>"
| "assign r (ColMarks, v) = r\<lparr>c_marks := v\<rparr>"
| "assign r (ColGrade, v) = r\<lparr>c_grade := v\<rparr>"

text \<open>
  The effect of a statement on the table and the rows it yields; \<open>roll_no\<close> is the
  primary key, so an insert of a key that is present fails.
\<close>

fun run_stmt :: "stmt \<Rightarrow> dbrow list \<Rightarrow> exn + (dbrow list \<times> dict list)" where
  "run_stmt (InsertStudent r n m g) t =
     (if r \<in> c_roll_no ` set t then Inl (Error ''Duplicate entry for key PRIMARY'')
      else Inr (t @ [\<lparr>c_roll_no = r, c_name = n, c_marks = m, c_grade = g\<rparr>], []))"
| "run_stmt SelectAllOrderByRoll t =
     Inr (t, map row_dict (by_roll t))"
| "run_stmt (SelectWhereRoll k) t =
     Inr (t, map row_dict (filter (\<lambda>r. c_roll_no r = k) t))"
| "run_stmt (UpdateSet as k) t =
     Inr (map (\<lambda>r. if c_roll_no r = k then foldl assign r as else r) t, [])"
| "run_stmt (DeleteWhereRoll k) t =
     Inr (filter (\<lambda>r. c_roll_no r \<noteq> k) t, [])"
| "run_stmt SelectRollNameMarks t =
     Inr (t, map roll_name_marks t)"
| "run_stmt SelectMarks t =
     Inr (t, map (\<lambda>r. [(''marks'', c_marks r)]) t)"

section \<open>Database\<close>

definition connect :: "world \<Rightarrow> bool \<times> world" where
  "connect w =
     (case server w of
        [] \<Rightarrow> (True, w\<lparr>conn := True\<rparr>)
      | b # bs \<Rightarrow>
          if b then (True, w\<lparr>conn := True, server := bs\<rparr>)
          else (False, say DbConnectionError (w\<lparr>server := bs\<rparr>)))"

definition close :: "world \<Rightarrow> world" where
  "close w = (if conn w then w\<lparr>conn := False\<rparr> else w)"

text \<open>
  \<open>cursor.execute\<close>, the commit and the fetch. The model has one connection and no
  rollback, so a statement's effect is there as soon as it has run, with or without
  \<open>commit\<close>.
\<close>

definition cursor_execute ::
  "stmt \<Rightarrow> bool \<Rightarrow> bool \<Rightarrow> world \<Rightarrow> (exn + dict list option) \<times> world" where
  "cursor_execute q commit fetch w =
     (case faults w of
        Some m # fs \<Rightarrow> (Inl (Error m), w\<lparr>faults := fs, sent := sent w @ [q]\<rparr>)
      | _ \<Rightarrow>
          (let w1 = w\<lparr>faults := tl (faults w), sent := sent w @ [q]\<rparr> in
           case run_stmt q (table w1) of
             Inl e \<Rightarrow> (Inl e, w1)
           | Inr (t, rows) \<Rightarrow>
               (Inr (if fetch then Some rows else None), w1\<lparr>table := t\<rparr>)))"

definition execute ::
  "stmt \<Rightarrow> bool \<Rightarrow> bool \<Rightarrow> world \<Rightarrow> (exn + dict list option) \<times> world" where
  "execute q commit fetch w =
     (if \<not> conn w then
        (case connect w of
           (False, w1) \<Rightarrow> (Inl (RuntimeError ''DB connection failed''), w1)
         | (True, w1) \<Rightarrow> cursor_execute q commit fetch w1)
      else cursor_execute q commit fetch w)"

text \<open>The rows of a fetch (\<open>None\<close> and the empty list are both false in a test).\<close>

fun fetched :: "dict list option \<Rightarrow> dict list" where
  "fetched None = []"
| "fetched (Some rows) = rows"

section \<open>StudentManager\<close>

definition add_student :: "Student \<Rightarrow> world \<Rightarrow> (exn + unit) \<times> world" where
  "add_student s w =
     (case execute (InsertStudent (PStr (roll_no s)) (PStr (name s)) (PFloat (marks s))
                      (PStr (grade s))) True False w of
        (Inr _, w1) \<Rightarrow> (Inr (), say StudentAdded w1)
      | (Inl (Error e), w1) \<Rightarrow> (Inr (), say (ErrorAdding e) w1)
      | (Inl x, w1) \<Rightarrow> (Inl x, w1))"

definition view_students :: "world \<Rightarrow> (exn + dict list) \<times> world" where
  "view_students w =
     (case execute SelectAllOrderByRoll False True w of
        (Inr res, w1) \<Rightarrow>
          (if fetched res = [] then (Inr [], say NoStudentsFound w1)
           else (Inr (fetched res), say (PrintRows (fetched res)) w1))
      | (Inl (Error e), w1) \<Rightarrow> (Inr [], say (ErrorFetching e) w1)
      | (Inl x, w1) \<Rightarrow> (Inl x, w1))"

definition get_student_by_roll :: "string \<Rightarrow> world \<Rightarrow> (exn + dict option) \<times> world" where
  "get_student_by_roll r w =
     (case execute (SelectWhereRoll (PStr r)) False True w of
        (Inr res, w1) \<Rightarrow>
          (case fetched res of [] \<Rightarrow> (Inr None, w1) | d # _ \<Rightarrow> (Inr (Some d), w1))
      | (Inl (Error e), w1) \<Rightarrow> (Inr None, say (ErrorLookup e) w1)
      | (Inl x, w1) \<Rightarrow> (Inl x, w1))"

text \<open>The \<open>SET\<close> clause: one assignment for each field that is not \<open>None\<close>, in this order.\<close>

definition updates ::
  "string option \<Rightarrow> pyfloat option \<Rightarrow> string option \<Rightarrow> (column \<times> pyval) list" where
  "updates n m g =
     (case n of None \<Rightarrow> [] | Some x \<Rightarrow> [(ColName, PStr x)]) @
     (case m of None \<Rightarrow> [] | Some x \<Rightarrow> [(ColMarks, PFloat x)]) @
     (case g of None \<Rightarrow> [] | Some x \<Rightarrow> [(ColGrade, PStr x)])"

definition update_student ::
  "string \<Rightarrow> string option \<Rightarrow> pyfloat option \<Rightarrow> string option \<Rightarrow> world
     \<Rightarrow> (exn + unit) \<times> world" where
  "update_student r n m g w =
     (case get_student_by_roll r w of
        (Inl x, w1) \<Rightarrow> (Inl x, w1)
      | (Inr existing, w1) \<Rightarrow>
          if existing = None \<or> existing = Some [] then (Inr (), say StudentNotFound w1)
          else if updates n m g = [] then (Inr (), say NothingToUpdate w1)
          else
            (case execute (UpdateSet (updates n m g) (PStr r)) True False w1 of
               (Inr _, w2) \<Rightarrow> (Inr (), say StudentUpdated w2)
             | (Inl (Error e), w2) \<Rightarrow> (Inr (), say (ErrorUpdating e) w2)
             | (Inl x, w2) \<Rightarrow> (Inl x, w2)))"

definition delete_student :: "string \<Rightarrow> world \<Rightarrow> (exn + unit) \<times> world" where
  "delete_student r w =
     (case execute (DeleteWhereRoll (PStr r)) True False w of
        (Inr _, w1) \<Rightarrow> (Inr (), say StudentDeleted w1)
      | (Inl (Error e), w1) \<Rightarrow> (Inr (), say (ErrorDeleting e) w1)
      | (Inl x, w1) \<Rightarrow> (Inl x, w1))"

section \<open>The libraries the manager calls\<close>

text \<open>
  The conversions between text and numbers are Python's and pandas' own and are taken as
  parameters: \<open>float_of_str\<close> is \<open>float(s)\<close> on a string (\<open>None\<close>: it raises
  \<open>ValueError\<close>), \<open>str_of_float\<close> is \<open>str(x)\<close> on a float, \<open>pd_int\<close> and \<open>pd_float\<close>
  say whether pandas reads a text cell as an integer or as a float. So are the methods
  \<open>str.strip\<close> and \<open>str.lower\<close>, whose blanks and letters are those of Unicode: what is
  proved of the program holds for whatever these functions do.
\<close>

record pylib =
  float_of_str :: "string \<Rightarrow> pyfloat option"
  str_of_float :: "pyfloat \<Rightarrow> string"
  pd_int :: "string \<Rightarrow> int option"
  pd_float :: "string \<Rightarrow> pyfloat option"
  strip :: "string \<Rightarrow> string"
  lower :: "string \<Rightarrow> string"

subsection \<open>Floats\<close>

text \<open>The comparisons \<open><\<close> and \<open>>\<close> of floats: false whenever an operand is NaN.\<close>

fun flt :: "pyfloat \<Rightarrow> pyfloat \<Rightarrow> bool" where
  "flt NaN _ = False"
| "flt _ NaN = False"
| "flt (Fin a) (Fin b) = (a < b)"
| "flt NInf NInf = False"
| "flt NInf _ = True"
| "flt _ NInf = False"
| "flt PInf _ = False"
| "flt _ PInf = True"

definition fgt :: "pyfloat \<Rightarrow> pyfloat \<Rightarrow> bool" where
  "fgt a b = flt b a"

fun fadd :: "pyfloat \<Rightarrow> pyfloat \<Rightarrow> pyfloat" where
  "fadd NaN _ = NaN"
| "fadd _ NaN = NaN"
| "fadd (Fin a) (Fin b) = Fin (a + b)"
| "fadd PInf NInf = NaN"
| "fadd NInf PInf = NaN"
| "fadd PInf _ = PInf"
| "fadd NInf _ = NInf"
| "fadd _ PInf = PInf"
| "fadd _ NInf = NInf"

fun fneg :: "pyfloat \<Rightarrow> pyfloat" where
  "fneg (Fin a) = Fin (- a)"
| "fneg PInf = NInf"
| "fneg NInf = PInf"
| "fneg NaN = NaN"

fun fsquare :: "pyfloat \<Rightarrow> pyfloat" where
  "fsquare (Fin a) = Fin (a * a)"
| "fsquare NaN = NaN"
| "fsquare _ = PInf"

text \<open>Division by a positive count, and the root of a number that is not negative.\<close>

fun fdivn :: "pyfloat \<Rightarrow> nat \<Rightarrow> pyfloat" where
  "fdivn (Fin a) n = Fin (a / real n)"
| "fdivn x n = x"

fun fsqrt :: "pyfloat \<Rightarrow> pyfloat" where
  "fsqrt (Fin a) = Fin (sqrt a)"
| "fsqrt NInf = NaN"
| "fsqrt x = x"

text \<open>A key that orders the floats that are not NaN.\<close>

fun fkey :: "pyfloat \<Rightarrow> int \<times> real" where
  "fkey NInf = (- 1, 0)"
| "fkey (Fin a) = (0, a)"
| "fkey PInf = (1, 0)"
| "fkey NaN = (2, 0)"

definition desc_key :: "pyfloat \<Rightarrow> int \<times> real" where
  "desc_key x = (- fst (fkey x), - snd (fkey x))"

subsection \<open>pandas: numeric coercion, aggregates, the n largest\<close>

text \<open>\<open>pd.to_numeric(..., errors='coerce')\<close> on one value: what is no number becomes NaN.\<close>

fun to_numeric :: "pylib \<Rightarrow> pyval \<Rightarrow> pyfloat" where
  "to_numeric L PNone = NaN"
| "to_numeric L (PFloat x) = x"
| "to_numeric L (PInt i) = Fin (of_int i)"
| "to_numeric L (PBool b) = Fin (if b then 1 else 0)"
| "to_numeric L (PStr s) =
     (case pd_int L s of
        Some i \<Rightarrow> Fin (of_int i)
      | None \<Rightarrow> (case pd_float L s of Some x \<Rightarrow> x | None \<Rightarrow> NaN))"

text \<open>The aggregates skip NaN (\<open>skipna=True\<close>), and are NaN when nothing is left.\<close>

definition dropna :: "pyfloat list \<Rightarrow> pyfloat list" where
  "dropna xs = filter (\<lambda>x. x \<noteq> NaN) xs"

definition fsum :: "pyfloat list \<Rightarrow> pyfloat" where
  "fsum xs = foldl fadd (Fin 0) xs"

definition pd_mean :: "pyfloat list \<Rightarrow> pyfloat" where
  "pd_mean cl =
     (let xs = dropna cl in if xs = [] then NaN else fdivn (fsum xs) (length xs))"

definition pd_median :: "pyfloat list \<Rightarrow> pyfloat" where
  "pd_median cl =
     (let xs = sort_key fkey (dropna cl); n = length xs in
      if n = 0 then NaN
      else if odd n then xs ! (n div 2)
      else fdivn (fadd (xs ! (n div 2 - 1)) (xs ! (n div 2))) 2)"

text \<open>The sample standard deviation (\<open>ddof=1\<close>): NaN below two values.\<close>

definition pd_std :: "pyfloat list \<Rightarrow> pyfloat" where
  "pd_std cl =
     (let xs = dropna cl; n = length xs in
      if n < 2 then NaN
      else
        (let m = fdivn (fsum xs) n in
         fsqrt (fdivn (fsum (map (\<lambda>x. fsquare (fadd x (fneg m))) xs)) (n - 1))))"

text \<open>
  \<open>df.nlargest(n, 'marks')\<close> with \<open>keep='first'\<close>, on the rows paired with their numeric
  marks: the rows with a number in descending order, rows of equal marks in the order of
  the frame (the sort is stable), then the rows without a number; the first \<open>n\<close> of
  them.
\<close>

definition nlargest :: "nat \<Rightarrow> ('a \<times> pyfloat) list \<Rightarrow> ('a \<times> pyfloat) list" where
  "nlargest n fr =
     take n (sort_key (\<lambda>p. desc_key (snd p)) (filter (\<lambda>p. snd p \<noteq> NaN) fr) @
             filter (\<lambda>p. snd p = NaN) fr)"

text \<open>
  The value of a column in a row. The rows of one result all have the columns of its
  query; where a dictionary lacks a key, \<open>pd.DataFrame\<close> fills in NaN.
\<close>

definition col :: "string \<Rightarrow> dict \<Rightarrow> pyval" where
  "col c d = (case map_of d c of Some v \<Rightarrow> v | None \<Rightarrow> PFloat NaN)"

subsection \<open>The csv writer and \<open>pd.read_csv\<close>\<close>

text \<open>The decimal digit of a number below ten.\<close>

definition digit_char :: "nat \<Rightarrow> char" where
  "digit_char n = ''0123456789'' ! (n mod 10)"

fun str_of_nat :: "nat \<Rightarrow> string" where
  "str_of_nat n =
     (if n < 10 then [digit_char n] else str_of_nat (n div 10) @ [digit_char (n mod 10)])"

definition str_of_int :: "int \<Rightarrow> string" where
  "str_of_int i = (if i < 0 then CHR ''-'' # str_of_nat (nat (- i)) else str_of_nat (nat i))"

text \<open>
  The text the writer puts in a field: a string as it is, \<open>None\<close> as the empty field,
  anything else through \<open>str\<close>. Quoting is undone by the reader and is not modelled.
\<close>

fun csv_text :: "pylib \<Rightarrow> pyval \<Rightarrow> string" where
  "csv_text L PNone = []"
| "csv_text L (PStr s) = s"
| "csv_text L (PInt i) = str_of_int i"
| "csv_text L (PFloat x) = str_of_float L x"
| "csv_text L (PBool b) = (if b then ''True'' else ''False'')"

text \<open>The texts \<open>read_csv\<close> takes for a missing value, and for the truth values.\<close>

definition na_values :: "string list" where
  "na_values =
     ['''', ''#N/A'', ''#N/A N/A'', ''#NA'', ''-1.#IND'', ''-1.#QNAN'', ''-NaN'', ''-nan'',
      ''1.#IND'', ''1.#QNAN'', ''<NA>'', ''N/A'', ''NA'', ''NULL'', ''NaN'', ''None'',
      ''n/a'', ''nan'', ''null'']"

definition is_na :: "string \<Rightarrow> bool" where
  "is_na s = (s \<in> set na_values)"

definition is_true :: "string \<Rightarrow> bool" where
  "is_true s = (s \<in> set [''True'', ''TRUE'', ''true''])"

definition is_false :: "string \<Rightarrow> bool" where
  "is_false s = (s \<in> set [''False'', ''FALSE'', ''false''])"

datatype dtype = Int64 | Float64 | BoolT | Object

definition is_number :: "pylib \<Rightarrow> string \<Rightarrow> bool" where
  "is_number L s = (pd_int L s \<noteq> None \<or> pd_float L s \<noteq> None)"

text \<open>
  The type \<open>read_csv\<close> gives a column, from all its cells: integers when every cell is
  one, floats when every cell is a number or missing, truth values when every cell is
  one, and otherwise the texts as they stand.
\<close>

definition infer_dtype :: "pylib \<Rightarrow> string list \<Rightarrow> dtype" where
  "infer_dtype L cells =
     (if list_all (\<lambda>s. \<not> is_na s \<and> pd_int L s \<noteq> None) cells then Int64
      else if list_all (\<lambda>s. is_na s \<or> is_number L s) cells then Float64
      else if list_all (\<lambda>s. \<not> is_na s \<and> (is_true s \<or> is_false s)) cells then BoolT
      else Object)"

fun convert :: "pylib \<Rightarrow> dtype \<Rightarrow> string \<Rightarrow> pyval" where
  "convert L Int64 s = (case pd_int L s of Some i \<Rightarrow> PInt i | None \<Rightarrow> PFloat NaN)"
| "convert L Float64 s =
     (if is_na s then PFloat NaN
      else case pd_int L s of
        Some i \<Rightarrow> PFloat (Fin (of_int i))
      | None \<Rightarrow> (case pd_float L s of Some x \<Rightarrow> PFloat x | None \<Rightarrow> PFloat NaN))"
| "convert L BoolT s = PBool (is_true s)"
| "convert L Object s = (if is_na s then PFloat NaN else PStr s)"

definition cell :: "nat \<Rightarrow> string list \<Rightarrow> string" where
  "cell j l = (if j < length l then l ! j else [])"

text \<open>
  The frame \<open>read_csv\<close> builds from a header and data lines, as the rows \<open>iterrows\<close>
  yields: a short line is filled with missing cells, each column is converted by its type.
\<close>

definition read_csv :: "pylib \<Rightarrow> string list \<Rightarrow> string list list \<Rightarrow> dict list" where
  "read_csv L h b =
     map (\<lambda>l. map (\<lambda>j. (cell j h, convert L (infer_dtype L (map (cell j) b)) (cell j l)))
                 [0..<length h]) b"

text \<open>A file parses when it has a header and no line longer than the header.\<close>

definition parses :: "string list \<Rightarrow> string list list \<Rightarrow> bool" where
  "parses h b = (h \<noteq> [] \<and> list_all (\<lambda>l. length l \<le> length h) b)"

text \<open>\<open>row[c]\<close>, and \<open>float(v)\<close> on a value of the frame.\<close>

definition getitem :: "dict \<Rightarrow> string \<Rightarrow> exn + pyval" where
  "getitem d c = (case map_of d c of None \<Rightarrow> Inl (KeyError c) | Some v \<Rightarrow> Inr v)"

fun py_float :: "pylib \<Rightarrow> pyval \<Rightarrow> exn + pyfloat" where
  "py_float L (PFloat x) = Inr x"
| "py_float L (PInt i) = Inr (Fin (of_int i))"
| "py_float L (PBool b) = Inr (Fin (if b then 1 else 0))"
| "py_float L (PStr s) =
     (case float_of_str L s of
        None \<Rightarrow> Inl (ValueError ''could not convert string to float'')
      | Some x \<Rightarrow> Inr x)"
| "py_float L PNone = Inl TypeError"

section \<open>StudentManager: backup, restore, statistics, plot\<close>

text \<open>Sequencing of steps that may raise: the first exception ends the sequence.\<close>

definition and_then ::
  "(world \<Rightarrow> (exn + 'a) \<times> world) \<Rightarrow> ('a \<Rightarrow> world \<Rightarrow> (exn + 'b) \<times> world)
     \<Rightarrow> world \<Rightarrow> (exn + 'b) \<times> world" where
  "and_then m f w = (case m w of (Inl e, w1) \<Rightarrow> (Inl e, w1) | (Inr a, w1) \<Rightarrow> f a w1)"

definition backup_to_csv :: "pylib \<Rightarrow> string \<Rightarrow> world \<Rightarrow> (exn + unit) \<times> world" where
  "backup_to_csv L path w =
     (case view_students w of
        (Inl x, w1) \<Rightarrow> (Inl x, w1)
      | (Inr rows, w1) \<Rightarrow>
          (case rows of
             [] \<Rightarrow> (Inr (), say NothingToBackup w1)
           | d # _ \<Rightarrow>
               if writable w1 then
                 (Inr (),
                  say (BackupSaved path)
                    (w1\<lparr>files :=
                          (path, Table (map fst d)
                                   (map (\<lambda>r. map (\<lambda>k. csv_text L (col k r)) (map fst d)) rows))
                          # files w1\<rparr>))
               else (Inr (), say BackupError w1)))"

text \<open>
  The parameters of the statements of one row of the file, evaluated from left to right:
  \<open>row['roll_no']\<close>, \<open>row['name']\<close>, \<open>float(row['marks'])\<close>, \<open>row['grade']\<close>.
\<close>

definition row_params :: "pylib \<Rightarrow> dict \<Rightarrow> exn + (pyval \<times> pyval \<times> pyfloat \<times> pyval)" where
  "row_params L d =
     (case getitem d ''roll_no'' of Inl x \<Rightarrow> Inl x | Inr r \<Rightarrow>
     (case getitem d ''name'' of Inl x \<Rightarrow> Inl x | Inr n \<Rightarrow>
     (case getitem d ''marks'' of Inl x \<Rightarrow> Inl x | Inr mv \<Rightarrow>
     (case py_float L mv of Inl x \<Rightarrow> Inl x | Inr m \<Rightarrow>
     (case getitem d ''grade'' of Inl x \<Rightarrow> Inl x | Inr g \<Rightarrow> Inr (r, n, m, g))))))"

fun insert_of :: "pyval \<times> pyval \<times> pyfloat \<times> pyval \<Rightarrow> stmt" where
  "insert_of (r, n, m, g) = InsertStudent r n (PFloat m) g"

fun update_of :: "pyval \<times> pyval \<times> pyfloat \<times> pyval \<Rightarrow> stmt" where
  "update_of (r, n, m, g) = UpdateSet [(ColName, n), (ColMarks, PFloat m), (ColGrade, g)] r"

text \<open>
  One turn of the loop of \<open>restore_from_csv\<close>: the insert is sent, and after a storage
  error of the insert, the update; a storage error of the update is printed.
\<close>

definition restore_row :: "pylib \<Rightarrow> dict \<Rightarrow> world \<Rightarrow> (exn + unit) \<times> world" where
  "restore_row L d w =
     (case row_params L d of
        Inl x \<Rightarrow> (Inl x, w)
      | Inr p \<Rightarrow>
          (case execute (insert_of p) True False w of
             (Inr _, w1) \<Rightarrow> (Inr (), w1)
           | (Inl (Error e), w1) \<Rightarrow>
               (case execute (update_of p) True False w1 of
                  (Inr _, w2) \<Rightarrow> (Inr (), w2)
                | (Inl (Error e2), w2) \<Rightarrow> (Inr (), say (ErrorRestoringRow e2) w2)
                | (Inl x, w2) \<Rightarrow> (Inl x, w2))
           | (Inl x, w1) \<Rightarrow> (Inl x, w1)))"

fun restore_rows :: "pylib \<Rightarrow> dict list \<Rightarrow> world \<Rightarrow> (exn + unit) \<times> world" where
  "restore_rows L [] w = (Inr (), w)"
| "restore_rows L (d # ds) w =
     (case restore_row L d w of
        (Inl x, w1) \<Rightarrow> (Inl x, w1)
      | (Inr _, w1) \<Rightarrow> restore_rows L ds w1)"

definition restore_from_csv :: "pylib \<Rightarrow> string \<Rightarrow> world \<Rightarrow> (exn + unit) \<times> world" where
  "restore_from_csv L path w =
     (case map_of (files w) path of
        None \<Rightarrow> (Inr (), say CsvNotFound w)
      | Some Garbage \<Rightarrow> (Inr (), say CouldNotReadCsv w)
      | Some (Table h b) \<Rightarrow>
          if \<not> parses h b then (Inr (), say CouldNotReadCsv w)
          else
            (case restore_rows L (read_csv L h b) w of
               (Inl x, w1) \<Rightarrow> (Inl x, w1)
             | (Inr _, w1) \<Rightarrow> (Inr (), say RestoreComplete w1)))"

text \<open>The dictionary \<open>stats\<close> returns.\<close>

record stats_result =
  mean :: pyfloat
  median :: pyfloat
  std :: pyfloat
  toppers :: "dict list"

text \<open>A row of the toppers: the three columns, the marks as the number they were coerced to.\<close>

definition topper :: "dict \<times> pyfloat \<Rightarrow> dict" where
  "topper p =
     [(''roll_no'', col ''roll_no'' (fst p)), (''name'', col ''name'' (fst p)),
      (''marks'', PFloat (snd p))]"

definition marks_column :: "pylib \<Rightarrow> dict list \<Rightarrow> pyfloat list" where
  "marks_column L rows = map (\<lambda>d. to_numeric L (col ''marks'' d)) rows"

definition stats :: "pylib \<Rightarrow> world \<Rightarrow> (exn + stats_result option) \<times> world" where
  "stats L w =
     (case execute SelectRollNameMarks False True w of
        (Inl x, w1) \<Rightarrow> (Inl x, w1)
      | (Inr res, w1) \<Rightarrow>
          if fetched res = [] then (Inr None, say NoDataForStats w1)
          else
            (let rows = fetched res;
                 cl = marks_column L rows;
                 mean_val = pd_mean cl;
                 median_val = pd_median cl;
                 std_dev = pd_std cl;
                 tops = map topper (nlargest 3 (zip rows cl))
             in (Inr (Some \<lparr>mean = mean_val, median = median_val, std = std_dev,
                             toppers = tops\<rparr>),
                 say (Toppers tops)
                   (say (if std_dev = NaN then StdDeviationNA else StdDeviation std_dev)
                      (say (MedianMarks median_val) (say (MeanMarks mean_val) w1))))))"

definition plot_marks_distribution :: "world \<Rightarrow> (exn + unit) \<times> world" where
  "plot_marks_distribution w =
     (case execute SelectMarks False True w of
        (Inl x, w1) \<Rightarrow> (Inl x, w1)
      | (Inr res, w1) \<Rightarrow>
          if fetched res = [] then (Inr (), say NoMarksToPlot w1)
          else
            (let ms = filter (\<lambda>v. v \<noteq> PNone) (map (col ''marks'') (fetched res)) in
             if ms = [] then (Inr (), say NoMarksToPlot w1)
             else (Inr (), say (ShowHistogram ms) w1)))"

section \<open>Input validation helpers\<close>

text \<open>
  \<open>input()\<close> takes the next line of the standard input and raises \<open>EOFError\<close> at its
  end; the prompt is not recorded.
\<close>

definition input :: "world \<Rightarrow> (exn + string) \<times> world" where
  "input w =
     (case stdin w of [] \<Rightarrow> (Inl EOFError, w) | s # ss \<Rightarrow> (Inr s, w\<lparr>stdin := ss\<rparr>))"

definition input_roll :: "pylib \<Rightarrow> world \<Rightarrow> (exn + string) \<times> world" where
  "input_roll L =
     and_then input (\<lambda>s w.
       if strip L s = [] then (Inl (ValueError ''Roll no cannot be empty.''), w)
       else (Inr (strip L s), w))"

definition input_name :: "pylib \<Rightarrow> world \<Rightarrow> (exn + string) \<times> world" where
  "input_name L =
     and_then input (\<lambda>s w.
       if strip L s = [] then (Inl (ValueError ''Name cannot be empty.''), w)
       else (Inr (strip L s), w))"

text \<open>
  Both the \<open>ValueError\<close> of \<open>float\<close> and the one raised for a value out of range are
  caught by the \<open>except ValueError\<close> of the function and raised anew with one message.
\<close>

definition input_marks :: "pylib \<Rightarrow> world \<Rightarrow> (exn + pyfloat) \<times> world" where
  "input_marks L =
     and_then input (\<lambda>s w.
       case float_of_str L (strip L s) of
         None \<Rightarrow> (Inl (ValueError ''Invalid marks; enter a number between 0 and 100.''), w)
       | Some m \<Rightarrow>
           if flt m (Fin 0) \<or> fgt m (Fin 100)
           then (Inl (ValueError ''Invalid marks; enter a number between 0 and 100.''), w)
           else (Inr m, w))"

definition input_grade :: "pylib \<Rightarrow> world \<Rightarrow> (exn + string) \<times> world" where
  "input_grade L =
     and_then input (\<lambda>s w.
       if strip L s = [] then (Inl (ValueError ''Grade cannot be empty.''), w)
       else (Inr (strip L s), w))"

section \<open>The menu\<close>

text \<open>\<open>s.strip() or None\<close>.\<close>

definition or_none :: "pylib \<Rightarrow> string \<Rightarrow> string option" where
  "or_none L s = (if strip L s = [] then None else Some (strip L s))"

text \<open>\<open>CSV_BACKUP\<close>.\<close>

definition CSV_BACKUP :: string where
  "CSV_BACKUP = ''students_backup.csv''"

text \<open>
  The branch of the menu for a choice; the result says whether the loop goes on
  (\<open>False\<close>: the \<open>break\<close> of choice 0).
\<close>

definition menu_choice :: "pylib \<Rightarrow> string \<Rightarrow> world \<Rightarrow> (exn + bool) \<times> world" where
  "menu_choice L choice =
     (if choice = ''1'' then
        and_then (input_roll L) (\<lambda>roll.
        and_then (input_name L) (\<lambda>nm.
        and_then (input_marks L) (\<lambda>m.
        and_then (input_grade L) (\<lambda>g.
        and_then (add_student \<lparr>roll_no = roll, name = nm, marks = m, grade = g\<rparr>)
          (\<lambda>_ w. (Inr True, w))))))
      else if choice = ''2'' then
        and_then view_students (\<lambda>_ w. (Inr True, w))
      else if choice = ''3'' then
        and_then (input_roll L) (\<lambda>roll.
        and_then (get_student_by_roll roll) (\<lambda>s w.
          case s of
            Some (x # xs) \<Rightarrow> (Inr True, say (PrintRows [x # xs]) w)
          | _ \<Rightarrow> (Inr True, say NotFound w)))
      else if choice = ''4'' then
        and_then (input_roll L) (\<lambda>roll w0.
        and_then input (\<lambda>s1.
        and_then input (\<lambda>s2.
        and_then (\<lambda>w. if strip L s2 = [] then (Inr None, w)
                       else case float_of_str L (strip L s2) of
                              None \<Rightarrow> (Inl (ValueError ''could not convert string to float''), w)
                            | Some m \<Rightarrow> (Inr (Some m), w)) (\<lambda>m.
        and_then input (\<lambda>s3.
        and_then (update_student roll (or_none L s1) m (or_none L s3))
          (\<lambda>_ w. (Inr True, w))))))
          (say LeaveBlankToSkip w0))
      else if choice = ''5'' then
        and_then (input_roll L) (\<lambda>roll.
        and_then input (\<lambda>c.
          if lower L (strip L c) = ''yes''
          then and_then (delete_student roll) (\<lambda>_ w. (Inr True, w))
          else (\<lambda>w. (Inr True, say DeleteCancelled w))))
      else if choice = ''6'' then
        and_then (backup_to_csv L CSV_BACKUP) (\<lambda>_ w. (Inr True, w))
      else if choice = ''7'' then
        and_then (restore_from_csv L CSV_BACKUP) (\<lambda>_ w. (Inr True, w))
      else if choice = ''8'' then
        and_then (stats L) (\<lambda>_ w. (Inr True, w))
      else if choice = ''9'' then
        and_then plot_marks_distribution (\<lambda>_ w. (Inr True, w))
      else if choice = ''0'' then (\<lambda>w. (Inr False, say Exiting w))
      else (\<lambda>w. (Inr True, say InvalidChoice w)))"

text \<open>
  One pass of the loop of \<open>main_menu\<close>: the menu, the choice, and the branch inside the
  \<open>try\<close>, whose handlers print and let the loop go on. Only the \<open>input\<close> of the choice
  stands outside the \<open>try\<close>.
\<close>

definition menu_pass :: "pylib \<Rightarrow> world \<Rightarrow> (exn + bool) \<times> world" where
  "menu_pass L w =
     (case input (say Menu w) of
        (Inl x, w1) \<Rightarrow> (Inl x, w1)
      | (Inr s, w1) \<Rightarrow>
          (case menu_choice L (strip L s) w1 of
             (Inr go, w2) \<Rightarrow> (Inr go, w2)
           | (Inl (ValueError m), w2) \<Rightarrow> (Inr True, say (InputError m) w2)
           | (Inl x, w2) \<Rightarrow> (Inr True, say (UnexpectedError x) w2)))"

section \<open>A library instance and states for the examples\<close>

text \<open>
  Decimal numerals: an optional sign, digits, and an optional fraction. This is the part
  of the syntax of \<open>float\<close> and of pandas' readers that the examples use.
\<close>

definition digit_val :: "char \<Rightarrow> nat option" where
  "digit_val c =
     map_of [(CHR ''0'', 0), (CHR ''1'', 1), (CHR ''2'', 2), (CHR ''3'', 3), (CHR ''4'', 4),
             (CHR ''5'', 5), (CHR ''6'', 6), (CHR ''7'', 7), (CHR ''8'', 8), (CHR ''9'', 9)] c"

fun nat_of_digits :: "string \<Rightarrow> nat \<Rightarrow> nat option" where
  "nat_of_digits [] acc = Some acc"
| "nat_of_digits (c # cs) acc =
     (case digit_val c of None \<Rightarrow> None | Some d \<Rightarrow> nat_of_digits cs (10 * acc + d))"

definition unsigned_int :: "string \<Rightarrow> nat option" where
  "unsigned_int s = (if s = [] then None else nat_of_digits s 0)"

definition dec_int :: "string \<Rightarrow> int option" where
  "dec_int s =
     (case s of
        [] \<Rightarrow> None
      | c # cs \<Rightarrow>
          if c = CHR ''-'' then map_option (\<lambda>n. - int n) (unsigned_int cs)
          else if c = CHR ''+'' then map_option int (unsigned_int cs)
          else map_option int (unsigned_int s))"

definition unsigned_dec :: "string \<Rightarrow> real option" where
  "unsigned_dec s =
     (let a = takeWhile (\<lambda>c. c \<noteq> CHR ''.'') s;
          b = drop 1 (dropWhile (\<lambda>c. c \<noteq> CHR ''.'') s)
      in if a @ b = [] then None
         else map_option (\<lambda>n. real n / 10 ^ length b) (nat_of_digits (a @ b) 0))"

definition dec_float :: "string \<Rightarrow> pyfloat option" where
  "dec_float s =
     (case s of
        [] \<Rightarrow> None
      | c # cs \<Rightarrow>
          if c = CHR ''-'' then map_option (\<lambda>x. Fin (- x)) (unsigned_dec cs)
          else if c = CHR ''+'' then map_option Fin (unsigned_dec cs)
          else map_option Fin (unsigned_dec s))"

text \<open>The text of a float with at most two digits after the point, as Python prints it.\<close>

definition dec_str :: "pyfloat \<Rightarrow> string" where
  "dec_str x =
     (case x of
        PInf \<Rightarrow> ''inf''
      | NInf \<Rightarrow> ''-inf''
      | NaN \<Rightarrow> ''nan''
      | Fin a \<Rightarrow>
          (let n = nat \<lfloor>\<bar>a\<bar> * 100\<rfloor>;
               f = n mod 100
           in (if a < 0 then ''-'' else []) @ str_of_nat (n div 100) @ ''.'' @
              (if f mod 10 = 0 then [digit_char (f div 10)]
               else [digit_char (f div 10), digit_char (f mod 10)])))"

text \<open>
  Stripping and lower case on ASCII text: the blanks and the capital letters among the
  ASCII characters. The texts of the examples are ASCII.
\<close>

definition ascii_space :: "char \<Rightarrow> bool" where
  "ascii_space c =
     (c \<in> set [CHR 0x09, CHR 0x0A, CHR 0x0B, CHR 0x0C, CHR 0x0D, CHR 0x1C, CHR 0x1D,
               CHR 0x1E, CHR 0x1F, CHR '' ''])"

definition ascii_strip :: "string \<Rightarrow> string" where
  "ascii_strip s = rev (dropWhile ascii_space (rev (dropWhile ascii_space s)))"

definition ascii_lower_char :: "char \<Rightarrow> char" where
  "ascii_lower_char c =
     (case map_of (zip ''ABCDEFGHIJKLMNOPQRSTUVWXYZ'' ''abcdefghijklmnopqrstuvwxyz'') c of
        Some d \<Rightarrow> d
      | None \<Rightarrow> c)"

definition ascii_lower :: "string \<Rightarrow> string" where
  "ascii_lower s = map ascii_lower_char s"

definition declib :: pylib where
  "declib =
     \<lparr>float_of_str = dec_float, str_of_float = dec_str, pd_int = dec_int,
      pd_float = dec_float, strip = ascii_strip, lower = ascii_lower\<rparr>"

text \<open>A row of a student, and a state with an empty store, connected and undisturbed.\<close>

definition student_row :: "string \<Rightarrow> string \<Rightarrow> real \<Rightarrow> string \<Rightarrow> dbrow" where
  "student_row r n m g =
     \<lparr>c_roll_no = PStr r, c_name = PStr n, c_marks = PFloat (Fin m), c_grade = PStr g\<rparr>"

definition idle :: world where
  "idle =
     \<lparr>table = [], conn = True, server = [], faults = [], sent = [], files = [],
      writable = True, stdin = [], out = []\<rparr>"

text \<open>The store of the examples, in an order of scan that is not the order of the keys.\<close>

definition class_table :: "dbrow list" where
  "class_table =
     [student_row ''2'' ''Bea'' 90 ''A'', student_row ''1'' ''Al'' 70 ''B'',
      student_row ''3'' ''Cy'' 90 ''A'', student_row ''0'' ''Di'' 90 ''A'']"

definition classroom :: world where
  "classroom = idle\<lparr>table := class_table\<rparr>"

text \<open>The connection is lost and the server refuses the next attempt.\<close>

definition offline :: world where
  "offline = classroom\<lparr>conn := False, server := [False]\<rparr>"

text \<open>
  The marks of a table as \<open>stats\<close> coerces them, and its frame: each fetched row with
  its numeric marks, in the order of the fetch.
\<close>

definition numeric_marks :: "pylib \<Rightarrow> dbrow list \<Rightarrow> pyfloat list" where
  "numeric_marks L t = map (\<lambda>r. to_numeric L (c_marks r)) t"

definition frame :: "pylib \<Rightarrow> dbrow list \<Rightarrow> (dict \<times> pyfloat) list" where
  "frame L t = zip (map roll_name_marks t) (numeric_marks L t)"

text \<open>
  A value of the column \<open>marks\<close> that is no number: the \<open>NULL\<close> of the store, which the
  connector returns as \<open>None\<close>, or a text that pandas reads neither as an integer nor as
  a float.
\<close>

fun non_numeric :: "pylib \<Rightarrow> pyval \<Rightarrow> bool" where
  "non_numeric L PNone = True"
| "non_numeric L (PStr s) = (pd_int L s = None \<and> pd_float L s = None)"
| "non_numeric L _ = False"


text \<open>A store of four records with equal marks, scanned in an order that is not the order of the keys.\<close>

definition tied :: world where
  "tied =
     idle\<lparr>table := [student_row ''S4'' ''Dee'' 90 ''A'', student_row ''S2'' ''Bo'' 90 ''A'',
                     student_row ''S3'' ''Cy'' 90 ''A'', student_row ''S1'' ''Al'' 90 ''A'']\<rparr>"

text \<open>A store with a record whose marks are no number.\<close>

definition mixed :: world where
  "mixed =
     idle\<lparr>table := [student_row ''B2'' ''Bea'' 50 ''C'',
                     \<lparr>c_roll_no = PStr ''C3'', c_name = PStr ''Cy'', c_marks = PStr ''absent'',
                        c_grade = PStr ''F''\<rparr>,
                     student_row ''A1'' ''Al'' 70 ''B'']\<rparr>"

text \<open>The roll numbers of the toppers that \<open>stats\<close> returns.\<close>

definition topper_rolls :: "pylib \<Rightarrow> world \<Rightarrow> pyval list" where
  "topper_rolls L w =
     (case fst (stats L w) of
        Inr (Some st) \<Rightarrow> map (col ''roll_no'') (toppers st)
      | _ \<Rightarrow> [])"

text \<open>
  The roll numbers of the toppers as the specification words them: the three largest
  marks, ties going to the rows that come first in ascending order of \<open>roll_no\<close>.
\<close>

definition claimed_topper_rolls :: "pylib \<Rightarrow> world \<Rightarrow> pyval list" where
  "claimed_topper_rolls L w =
     map (\<lambda>p. col ''roll_no'' (fst p)) (nlargest 3 (frame L (by_roll (table w))))"










text \<open>A backup file of the four columns, and a store with one record.\<close>

definition backup_header :: "string list" where
  "backup_header = [''roll_no'', ''name'', ''marks'', ''grade'']"

definition desk :: world where
  "desk = idle\<lparr>table := [student_row ''A1'' ''Al'' 70 ''B'']\<rparr>"

definition with_file :: "string list list \<Rightarrow> world \<Rightarrow> world" where
  "with_file b w = w\<lparr>files := [(CSV_BACKUP, Table backup_header b)]\<rparr>"

text \<open>The example store with lines waiting on the standard input.\<close>

definition at_menu :: "string list \<Rightarrow> world" where
  "at_menu ls = classroom\<lparr>stdin := ls\<rparr>"

text \<open>The inserts among the statements of a log.\<close>

fun is_insert :: "stmt \<Rightarrow> bool" where
  "is_insert (InsertStudent r n m g) = True"
| "is_insert _ = False"

section \<open>An undisturbed connection\<close>

text \<open>
  With a live connection and no fault ahead, \<open>execute\<close> runs the statement and logs it.
\<close>

lemma faults_nil_same: "faults w = [] \<Longrightarrow> w\<lparr>faults := []\<rparr> = w"
  by (cases w) simp

lemma execute_quiet:
  "conn w \<Longrightarrow> faults w = [] \<Longrightarrow>
   execute q c f w =
     (case run_stmt q (table w) of
        Inl e \<Rightarrow> (Inl e, w\<lparr>sent := sent w @ [q]\<rparr>)
      | Inr (t, rows) \<Rightarrow>
          (Inr (if f then Some rows else None), w\<lparr>sent := sent w @ [q], table := t\<rparr>))"
  by (simp add: execute_def cursor_execute_def faults_nil_same split: sum.splits)

lemma get_student_quiet:
  "conn w \<Longrightarrow> faults w = [] \<Longrightarrow>
   get_student_by_roll r w =
     (case filter (\<lambda>row. c_roll_no row = PStr r) (table w) of
        [] \<Rightarrow> (Inr None, w\<lparr>sent := sent w @ [SelectWhereRoll (PStr r)]\<rparr>)
      | row # _ \<Rightarrow> (Inr (Some (row_dict row)), w\<lparr>sent := sent w @ [SelectWhereRoll (PStr r)]\<rparr>))"
  by (simp add: get_student_by_roll_def execute_quiet split: list.splits)

lemma filter_key_nonempty:
  "k \<in> c_roll_no ` set t \<Longrightarrow> \<exists>row rest. filter (\<lambda>row. c_roll_no row = k) t = row # rest"
  by (cases "filter (\<lambda>row. c_roll_no row = k) t") (auto simp: filter_empty_conv)

section \<open>Partial update\<close>

text \<open>
  Claim C3. For a record that exists, on a live connection with no storage error ahead,
  \<open>update(roll_no, marks=X)\<close> with name and grade omitted sends the lookup and one
  \<open>UPDATE\<close> that sets only \<open>marks\<close>: the rows of that key get marks exactly \<open>X\<close> and keep
  their name and grade, every other row is as before, and the update is reported. With
  all three fields omitted only the lookup is sent, the table is as before, and the one
  message printed says that there is nothing to update.
\<close>

theorem update_marks_only:
  assumes "conn w" and "faults w = []" and "PStr r \<in> c_roll_no ` set (table w)"
  shows "update_student r None (Some x) None w =
           (Inr (), say StudentUpdated
              (w\<lparr>sent := sent w @ [SelectWhereRoll (PStr r),
                                    UpdateSet [(ColMarks, PFloat x)] (PStr r)],
                 table := map (\<lambda>row. if c_roll_no row = PStr r
                                       then row\<lparr>c_marks := PFloat x\<rparr> else row) (table w)\<rparr>))
         \<and> update_student r None None None w =
             (Inr (), say NothingToUpdate (w\<lparr>sent := sent w @ [SelectWhereRoll (PStr r)]\<rparr>))"
proof -
  obtain row rest where f: "filter (\<lambda>row. c_roll_no row = PStr r) (table w) = row # rest"
    using filter_key_nonempty [OF assms(3)] by blast
  have g: "get_student_by_roll r w =
             (Inr (Some (row_dict row)), w\<lparr>sent := sent w @ [SelectWhereRoll (PStr r)]\<rparr>)"
    using assms(1,2) f by (simp add: get_student_quiet)
  show ?thesis
    using assms(1,2)
    by (simp add: update_student_def g row_dict_def updates_def execute_quiet cong: if_cong)
qed

text \<open>The partial update at the key \<open>1\<close> of the example store, with marks 55.\<close>

theorem update_marks_only_witness:
  "update_student ''1'' None (Some (Fin 55)) None classroom =
     (Inr (), say StudentUpdated
        (classroom\<lparr>sent := [SelectWhereRoll (PStr ''1''),
                            UpdateSet [(ColMarks, PFloat (Fin 55))] (PStr ''1'')],
           table := [student_row ''2'' ''Bea'' 90 ''A'', student_row ''1'' ''Al'' 55 ''B'',
                     student_row ''3'' ''Cy'' 90 ''A'', student_row ''0'' ''Di'' 90 ''A'']\<rparr>))
   \<and> update_student ''1'' None None None classroom =
       (Inr (), say NothingToUpdate (classroom\<lparr>sent := [SelectWhereRoll (PStr ''1'')]\<rparr>))"
  using update_marks_only [of classroom "''1''" "Fin 55"]
  by (simp add: classroom_def idle_def class_table_def student_row_def)

section \<open>Idempotent delete\<close>

lemma delete_quiet:
  "conn w \<Longrightarrow> faults w = [] \<Longrightarrow>
   delete_student r w =
     (Inr (), say StudentDeleted
        (w\<lparr>sent := sent w @ [DeleteWhereRoll (PStr r)],
           table := filter (\<lambda>row. c_roll_no row \<noteq> PStr r) (table w)\<rparr>))"
  by (simp add: delete_student_def execute_quiet)

text \<open>
  Claim C4. On a live connection with no storage error ahead, \<open>delete(roll_no)\<close> called
  twice in a row raises nothing either time, prints the same success message both times
  whether or not the row was there, leaves no row of that key after the first call, and
  the second call leaves the table as the first one left it.
\<close>

theorem delete_twice:
  assumes "conn w" and "faults w = []"
  shows "delete_student r w =
           (Inr (), say StudentDeleted
              (w\<lparr>sent := sent w @ [DeleteWhereRoll (PStr r)],
                 table := filter (\<lambda>row. c_roll_no row \<noteq> PStr r) (table w)\<rparr>))
         \<and> PStr r \<notin> c_roll_no ` set (table (snd (delete_student r w)))
         \<and> fst (delete_student r (snd (delete_student r w))) = Inr ()
         \<and> table (snd (delete_student r (snd (delete_student r w)))) =
             table (snd (delete_student r w))
         \<and> out (snd (delete_student r (snd (delete_student r w)))) =
             out w @ [StudentDeleted, StudentDeleted]"
proof -
  let ?w1 = "say StudentDeleted
               (w\<lparr>sent := sent w @ [DeleteWhereRoll (PStr r)],
                  table := filter (\<lambda>row. c_roll_no row \<noteq> PStr r) (table w)\<rparr>)"
  have d1: "delete_student r w = (Inr (), ?w1)"
    using assms by (rule delete_quiet)
  have q: "conn ?w1" "faults ?w1 = []"
    using assms by (simp_all add: say_def)
  have d2: "delete_student r ?w1 =
              (Inr (), say StudentDeleted
                 (?w1\<lparr>sent := sent ?w1 @ [DeleteWhereRoll (PStr r)],
                      table := filter (\<lambda>row. c_roll_no row \<noteq> PStr r) (table ?w1)\<rparr>))"
    using q by (rule delete_quiet)
  have absent: "PStr r \<notin> c_roll_no ` set (table ?w1)"
    by (auto simp: say_def)
  show ?thesis
    unfolding d1 snd_conv d2 fst_conv using absent by (simp add: say_def)
qed

text \<open>Deleting the key \<open>1\<close> of the example store twice.\<close>

theorem delete_twice_witness:
  "table (snd (delete_student ''1'' classroom)) =
     [student_row ''2'' ''Bea'' 90 ''A'', student_row ''3'' ''Cy'' 90 ''A'',
      student_row ''0'' ''Di'' 90 ''A'']
   \<and> fst (delete_student ''1'' classroom) = Inr ()
   \<and> fst (delete_student ''1'' (snd (delete_student ''1'' classroom))) = Inr ()
   \<and> table (snd (delete_student ''1'' (snd (delete_student ''1'' classroom)))) =
       table (snd (delete_student ''1'' classroom))
   \<and> out (snd (delete_student ''1'' (snd (delete_student ''1'' classroom)))) =
       [StudentDeleted, StudentDeleted]"
  using delete_twice [of classroom "''1''"]
  by (simp add: classroom_def idle_def class_table_def student_row_def say_def
        delete_student_def execute_def cursor_execute_def)

section \<open>The lazy reconnect of the gateway\<close>

text \<open>
  Claim C9. When \<open>execute\<close> is called without a live connection, exactly one
  connection attempt is made (one answer of the server is used up). If the server
  refuses it, \<open>execute\<close> prints the connection diagnostic and fails with the program's
  error for an unreachable store, \<open>RuntimeError('DB connection failed')\<close>, and with no
  other: the statement is not sent, so no storage error of a statement can arise, and
  the table is untouched.
\<close>

theorem execute_reconnect:
  assumes "\<not> conn w"
  shows "server (snd (execute q c f w)) = tl (server w)
         \<and> (\<forall>bs. server w = False # bs \<longrightarrow>
              execute q c f w =
                (Inl (RuntimeError ''DB connection failed''),
                 say DbConnectionError (w\<lparr>server := bs\<rparr>)))"
  using assms
  by (auto simp: execute_def connect_def cursor_execute_def say_def Let_def
           split: list.splits option.splits sum.splits prod.splits)

text \<open>A fetch on the example store while the server is away.\<close>

theorem execute_reconnect_witness:
  "server (snd (execute SelectMarks False True offline)) = []
   \<and> execute SelectMarks False True offline =
       (Inl (RuntimeError ''DB connection failed''),
        say DbConnectionError (offline\<lparr>server := []\<rparr>))"
  using execute_reconnect [of offline SelectMarks False True]
  by (simp add: offline_def classroom_def idle_def say_def)

section \<open>The delete flow of the menu\<close>

lemma input_cons: "stdin w = s # ss \<Longrightarrow> input w = (Inr s, w\<lparr>stdin := ss\<rparr>)"
  by (simp add: input_def)

lemma input_roll_cons:
  "stdin w = s # ss \<Longrightarrow> strip L s \<noteq> [] \<Longrightarrow>
   input_roll L w = (Inr (strip L s), w\<lparr>stdin := ss\<rparr>)"
  by (simp add: input_roll_def and_then_def input_cons)

lemma delete_student_sent:
  "conn w \<Longrightarrow> sent (snd (delete_student r w)) = sent w @ [DeleteWhereRoll (PStr r)]"
  by (auto simp: delete_student_def execute_def cursor_execute_def say_def Let_def
           split: list.splits option.splits sum.splits prod.splits exn.splits)

text \<open>
  Claim C10. In the delete flow, once a roll number has been entered, the flow calls
  \<open>delete_student\<close> only when the confirmation, after \<open>strip\<close> and \<open>lower\<close> (Python's
  own, whatever they do to the text), is exactly \<open>yes\<close> (and then, on a live
  connection, one \<open>DELETE\<close> for that roll number reaches the store); for any other
  confirmation it prints the cancellation message, sends
  nothing and leaves the store and everything else but the consumed input as it was.
\<close>

theorem delete_needs_yes:
  assumes "stdin w = r # c # rest" and "strip L r \<noteq> []"
  shows "(lower L (strip L c) = ''yes'' \<longrightarrow>
            menu_choice L ''5'' w =
              and_then (delete_student (strip L r)) (\<lambda>_ w'. (Inr True, w')) (w\<lparr>stdin := rest\<rparr>)
            \<and> (conn w \<longrightarrow> sent (snd (menu_choice L ''5'' w)) =
                            sent w @ [DeleteWhereRoll (PStr (strip L r))]))
         \<and> (lower L (strip L c) \<noteq> ''yes'' \<longrightarrow>
              menu_choice L ''5'' w = (Inr True, say DeleteCancelled (w\<lparr>stdin := rest\<rparr>)))"
proof -
  have r: "input_roll L w = (Inr (strip L r), w\<lparr>stdin := c # rest\<rparr>)"
    using assms by (simp add: input_roll_cons)
  have c: "input (w\<lparr>stdin := c # rest\<rparr>) = (Inr c, w\<lparr>stdin := rest\<rparr>)"
    by (simp add: input_def)
  have m: "menu_choice L ''5'' w =
             (if lower L (strip L c) = ''yes''
              then and_then (delete_student (strip L r)) (\<lambda>_ w'. (Inr True, w')) (w\<lparr>stdin := rest\<rparr>)
              else (Inr True, say DeleteCancelled (w\<lparr>stdin := rest\<rparr>)))"
    by (simp add: menu_choice_def and_then_def r c)
  have s: "conn w \<Longrightarrow>
           sent (snd (and_then (delete_student (strip L r)) (\<lambda>_ w'. (Inr True, w')) (w\<lparr>stdin := rest\<rparr>)))
             = sent w @ [DeleteWhereRoll (PStr (strip L r))]"
    using delete_student_sent [of "w\<lparr>stdin := rest\<rparr>" "strip L r"]
    by (auto simp: and_then_def split: prod.splits sum.splits)
  show ?thesis using m s by simp
qed

text \<open>The delete flow confirmed with \<open>YES\<close> between blanks, and answered with \<open>y\<close>.\<close>

theorem delete_needs_yes_witness:
  "table (snd (menu_choice declib ''5'' (at_menu [''1'', '' YES '']))) =
     [student_row ''2'' ''Bea'' 90 ''A'', student_row ''3'' ''Cy'' 90 ''A'',
      student_row ''0'' ''Di'' 90 ''A'']
   \<and> sent (snd (menu_choice declib ''5'' (at_menu [''1'', '' YES '']))) =
       [DeleteWhereRoll (PStr ''1'')]
   \<and> menu_choice declib ''5'' (at_menu [''1'', ''y'']) =
       (Inr True, say DeleteCancelled (at_menu []))"
  using delete_needs_yes [of "at_menu [''1'', '' YES '']" "''1''" "'' YES ''" "[]" declib]
        delete_needs_yes [of "at_menu [''1'', ''y'']" "''1''" "''y''" "[]" declib]
  by (simp add: at_menu_def classroom_def idle_def class_table_def student_row_def say_def
        declib_def ascii_strip_def ascii_space_def ascii_lower_def ascii_lower_char_def
        and_then_def
        delete_student_def execute_def cursor_execute_def)

section \<open>Validation of marks in the add and update flows\<close>

text \<open>
  \<open>input_marks\<close>, which the add flow calls: a text that parses to a finite number is
  accepted exactly when the number lies in the closed interval from 0 to 100.
\<close>

lemma input_marks_parsed:
  "stdin w = s # ss \<Longrightarrow> float_of_str L (strip L s) = Some (Fin x) \<Longrightarrow>
   input_marks L w =
     (if x < 0 \<or> 100 < x
      then (Inl (ValueError ''Invalid marks; enter a number between 0 and 100.''),
            w\<lparr>stdin := ss\<rparr>)
      else (Inr (Fin x), w\<lparr>stdin := ss\<rparr>))"
  by (simp add: input_marks_def and_then_def input_cons fgt_def)

text \<open>
  Claim C7 fails in the update flow, which calls \<open>float\<close> and never compares the result
  with 0 and 100: the marks \<open>100.01\<close> typed for the record of key \<open>1\<close> are sent to the
  store and stored.
\<close>

theorem update_flow_out_of_range:
  "menu_choice declib ''4'' (at_menu [''1'', '''', ''100.01'', '''']) =
     (Inr True,
      say StudentUpdated
        (say LeaveBlankToSkip
           (classroom\<lparr>sent := [SelectWhereRoll (PStr ''1''),
                                UpdateSet [(ColMarks, PFloat (Fin (10001 / 100)))] (PStr ''1'')],
              table := [student_row ''2'' ''Bea'' 90 ''A'',
                        student_row ''1'' ''Al'' (10001 / 100) ''B'',
                        student_row ''3'' ''Cy'' 90 ''A'', student_row ''0'' ''Di'' 90 ''A'']\<rparr>)))"
  by (simp add: at_menu_def classroom_def idle_def class_table_def student_row_def say_def
        menu_choice_def and_then_def input_roll_def input_def or_none_def
        ascii_strip_def ascii_space_def declib_def dec_float_def unsigned_dec_def digit_val_def
        update_student_def get_student_by_roll_def updates_def row_dict_def
        execute_def cursor_execute_def)

text \<open>The add flow rejects the same text before any statement is sent.\<close>

theorem add_flow_out_of_range:
  "menu_choice declib ''1'' (at_menu [''9'', ''Eve'', ''100.01'', ''A'']) =
     (Inl (ValueError ''Invalid marks; enter a number between 0 and 100.''), at_menu [''A''])"
  by (simp add: at_menu_def classroom_def idle_def class_table_def student_row_def say_def
        menu_choice_def and_then_def input_roll_def input_name_def input_marks_def input_def
        ascii_strip_def ascii_space_def declib_def dec_float_def unsigned_dec_def digit_val_def fgt_def)

section \<open>Storage errors inside the manager\<close>

text \<open>What \<open>execute\<close> does on a fault, on a refused reconnect, and what it can raise.\<close>

lemma execute_fault:
  "conn w \<Longrightarrow> faults w = Some m # fs \<Longrightarrow>
   execute q c f w = (Inl (Error m), w\<lparr>faults := fs, sent := sent w @ [q]\<rparr>)"
  by (simp add: execute_def cursor_execute_def)


lemma run_stmt_raises: "run_stmt q t = Inl x \<Longrightarrow> \<exists>e. x = Error e"
  by (cases q) (auto split: if_splits)

lemma execute_raises:
  "execute q c f w = (Inl x, w1) \<Longrightarrow>
   (\<exists>e. x = Error e) \<or> x = RuntimeError ''DB connection failed''"
  by (auto simp: execute_def connect_def cursor_execute_def Let_def
           dest: run_stmt_raises
           split: if_splits list.splits option.splits sum.splits prod.splits)

lemma execute_conn:
  "conn w \<Longrightarrow> execute q c f w = (res, w1) \<Longrightarrow>
   conn w1 \<and> sent w1 = sent w @ [q] \<and> (\<forall>x. res = Inl x \<longrightarrow> (\<exists>e. x = Error e))"
  by (auto simp: execute_def cursor_execute_def Let_def
           dest: run_stmt_raises
           split: if_splits list.splits option.splits sum.splits prod.splits)



















section \<open>Restore, row by row\<close>

lemma is_insert_insert_of [simp]: "is_insert (insert_of q)"
  by (cases q) simp

lemma is_insert_update_of [simp]: "\<not> is_insert (update_of q)"
  by (cases q) simp

lemma restore_row_conn:
  assumes "conn w" and "row_params L d = Inr q"
  shows "\<exists>w1. restore_row L d w = (Inr (), w1) \<and> conn w1
              \<and> filter is_insert (sent w1) = filter is_insert (sent w) @ [insert_of q]"
proof -
  obtain res1 w1 where e1: "execute (insert_of q) True False w = (res1, w1)"
    by (cases "execute (insert_of q) True False w") auto
  have p1: "conn w1" "sent w1 = sent w @ [insert_of q]"
       "\<And>x. res1 = Inl x \<Longrightarrow> \<exists>e. x = Error e"
    using execute_conn [OF assms(1) e1] by auto
  show ?thesis
  proof (cases res1)
    case (Inr a)
    then show ?thesis
      using assms(2) e1 p1 by (simp add: restore_row_def)
  next
    case (Inl x)
    then obtain e where x: "x = Error e" using p1(3) by blast
    obtain res2 w2 where e2: "execute (update_of q) True False w1 = (res2, w2)"
      by (cases "execute (update_of q) True False w1") auto
    have p2: "conn w2" "sent w2 = sent w1 @ [update_of q]"
         "\<And>y. res2 = Inl y \<Longrightarrow> \<exists>e. y = Error e"
      using execute_conn [OF p1(1) e2] by auto
    show ?thesis
    proof (cases res2)
      case (Inr b)
      then show ?thesis
        using assms(2) e1 e2 Inl x p1 p2 by (simp add: restore_row_def)
    next
      case Inl2: (Inl y)
      then obtain e' where y: "y = Error e'" using p2(3) by blast
      show ?thesis
        using assms(2) e1 e2 Inl x Inl2 y p1 p2 by (simp add: restore_row_def say_def)
    qed
  qed
qed

lemma restore_rows_conn:
  "conn w \<Longrightarrow> map (row_params L) ds = map Inr ps \<Longrightarrow>
   \<exists>w'. restore_rows L ds w = (Inr (), w') \<and> conn w'
        \<and> filter is_insert (sent w') = filter is_insert (sent w) @ map insert_of ps"
proof (induction ds arbitrary: w ps)
  case Nil
  then show ?case by simp
next
  case (Cons d ds)
  from Cons.prems(2) obtain q qs where ps: "ps = q # qs" and q: "row_params L d = Inr q"
    and qs: "map (row_params L) ds = map Inr qs"
    by (cases ps) auto
  obtain w1 where r: "restore_row L d w = (Inr (), w1)" and c1: "conn w1"
    and s1: "filter is_insert (sent w1) = filter is_insert (sent w) @ [insert_of q]"
    using restore_row_conn [OF Cons.prems(1) q] by blast
  obtain w' where r': "restore_rows L ds w1 = (Inr (), w')" and c': "conn w'"
    and s': "filter is_insert (sent w') = filter is_insert (sent w1) @ map insert_of qs"
    using Cons.IH [OF c1 qs] by blast
  show ?case
    using r r' c' s1 s' ps by simp
qed

text \<open>
  Claim C8, amended. On a live connection, for a parsed backup file whose rows all
  yield their four parameters (the columns are there and the marks convert to a float),
  restore returns normally after the last row and has sent the insert of every row, in
  the order of the file, whatever storage errors the statements met. For a row, when
  the insert fails because the key is present, one update keyed by the roll number
  follows; and when insert and update both fail with a storage error, the error of the
  update is printed and the row ends normally.
\<close>

theorem restore_row_by_row:
  assumes "conn w" and "map_of (files w) p = Some (Table h b)" and "parses h b"
    and "map (row_params L) (read_csv L h b) = map Inr ps"
  shows "(\<exists>w'. restore_from_csv L p w = (Inr (), say RestoreComplete w')
              \<and> filter is_insert (sent w') = filter is_insert (sent w) @ map insert_of ps)
         \<and> (\<forall>d q w0 e1 e2 fs.
               conn w0 \<and> row_params L d = Inr q \<and> faults w0 = Some e1 # Some e2 # fs \<longrightarrow>
               restore_row L d w0 =
                 (Inr (), say (ErrorRestoringRow e2)
                    (w0\<lparr>faults := fs, sent := sent w0 @ [insert_of q, update_of q]\<rparr>)))
         \<and> (\<forall>d q w0.
               conn w0 \<and> row_params L d = Inr q \<and> faults w0 = []
                 \<and> fst q \<in> c_roll_no ` set (table w0) \<longrightarrow>
               fst (restore_row L d w0) = Inr ()
                 \<and> sent (snd (restore_row L d w0)) = sent w0 @ [insert_of q, update_of q])"
proof -
  obtain w' where r: "restore_rows L (read_csv L h b) w = (Inr (), w')"
    and s: "filter is_insert (sent w') = filter is_insert (sent w) @ map insert_of ps"
    using restore_rows_conn [OF assms(1,4)] by blast
  have a: "\<exists>w'. restore_from_csv L p w = (Inr (), say RestoreComplete w')
              \<and> filter is_insert (sent w') = filter is_insert (sent w) @ map insert_of ps"
  proof (intro exI conjI)
    show "restore_from_csv L p w = (Inr (), say RestoreComplete w')"
      using assms(2,3) r by (simp add: restore_from_csv_def)
    show "filter is_insert (sent w') = filter is_insert (sent w) @ map insert_of ps"
      by (rule s)
  qed
  have b: "restore_row L d w0 =
             (Inr (), say (ErrorRestoringRow e2)
                (w0\<lparr>faults := fs, sent := sent w0 @ [insert_of q, update_of q]\<rparr>))"
    if "conn w0" "row_params L d = Inr q" "faults w0 = Some e1 # Some e2 # fs"
    for d q w0 e1 e2 fs
    using that by (simp add: restore_row_def execute_fault)
  have c: "fst (restore_row L d w0) = Inr ()
             \<and> sent (snd (restore_row L d w0)) = sent w0 @ [insert_of q, update_of q]"
    if "conn w0" "row_params L d = Inr q" "faults w0 = []"
       "fst q \<in> c_roll_no ` set (table w0)"
    for d q w0
    using that
    by (cases q) (simp add: restore_row_def execute_quiet)
  show ?thesis using a b c by blast
qed

text \<open>
  A file of two rows restored while the next two statements fail: the first row's
  failure is printed, the second row is inserted.
\<close>

theorem restore_row_by_row_witness:
  "restore_from_csv declib CSV_BACKUP
     (with_file [[''A1'', ''Al'', ''75.5'', ''B''], [''B2'', ''Bea'', ''60.0'', ''C'']]
        (desk\<lparr>faults := [Some ''deadlock'', Some ''deadlock again'']\<rparr>)) =
     (Inr (),
      say RestoreComplete
        (say (ErrorRestoringRow ''deadlock again'')
           (with_file [[''A1'', ''Al'', ''75.5'', ''B''], [''B2'', ''Bea'', ''60.0'', ''C'']]
              (desk\<lparr>sent := [InsertStudent (PStr ''A1'') (PStr ''Al'') (PFloat (Fin (151 / 2)))
                                  (PStr ''B''),
                               UpdateSet [(ColName, PStr ''Al''),
                                          (ColMarks, PFloat (Fin (151 / 2))),
                                          (ColGrade, PStr ''B'')] (PStr ''A1''),
                               InsertStudent (PStr ''B2'') (PStr ''Bea'') (PFloat (Fin 60))
                                  (PStr ''C'')],
                    table := [student_row ''A1'' ''Al'' 70 ''B'',
                              student_row ''B2'' ''Bea'' 60 ''C'']\<rparr>))))"
proof -
  let ?b = "[[''A1'', ''Al'', ''75.5'', ''B''], [''B2'', ''Bea'', ''60.0'', ''C'']]"
  let ?w = "with_file ?b (desk\<lparr>faults := [Some ''deadlock'', Some ''deadlock again'']\<rparr>)"
  have rd: "read_csv declib backup_header ?b =
              [[(''roll_no'', PStr ''A1''), (''name'', PStr ''Al''),
                (''marks'', PFloat (Fin (151 / 2))), (''grade'', PStr ''B'')],
               [(''roll_no'', PStr ''B2''), (''name'', PStr ''Bea''),
                (''marks'', PFloat (Fin 60)), (''grade'', PStr ''C'')]]"
    by (simp add: read_csv_def backup_header_def cell_def infer_dtype_def is_na_def
          na_values_def is_number_def is_true_def is_false_def declib_def dec_int_def
          dec_float_def unsigned_int_def unsigned_dec_def digit_val_def upt_rec)
  have ps: "map (row_params declib) (read_csv declib backup_header ?b) =
              map Inr [(PStr ''A1'', PStr ''Al'', Fin (151 / 2), PStr ''B''),
                       (PStr ''B2'', PStr ''Bea'', Fin 60, PStr ''C'')]"
    by (simp add: rd row_params_def getitem_def)
  have c: "conn ?w"
    by (simp add: with_file_def desk_def idle_def)
  have f: "map_of (files ?w) CSV_BACKUP = Some (Table backup_header ?b)"
    by (simp add: with_file_def)
  have pr: "parses backup_header ?b"
    by (simp add: parses_def backup_header_def)
  have t: "\<exists>w'. restore_from_csv declib CSV_BACKUP ?w = (Inr (), say RestoreComplete w')"
    using restore_row_by_row [OF c f pr ps] by blast
  show ?thesis
    using t
    by (simp add: restore_from_csv_def with_file_def desk_def idle_def pr rd
          restore_row_def row_params_def getitem_def say_def
          execute_def cursor_execute_def student_row_def)
qed

text \<open>
  Claim C8 as stated fails: a row whose marks are no number raises \<open>ValueError\<close> out of
  restore before anything is sent, and a refused reconnect at a row's insert raises
  \<open>RuntimeError\<close>; in both cases the rows that follow are not processed.
\<close>

theorem restore_aborted_by_a_row:
  "restore_from_csv declib CSV_BACKUP
     (with_file [[''B2'', ''Bea'', ''abc'', ''C''], [''C3'', ''Cy'', ''60.0'', ''A'']] desk) =
     (Inl (ValueError ''could not convert string to float''),
      with_file [[''B2'', ''Bea'', ''abc'', ''C''], [''C3'', ''Cy'', ''60.0'', ''A'']] desk)
   \<and> restore_from_csv declib CSV_BACKUP
       (with_file [[''B2'', ''Bea'', ''50.0'', ''C''], [''C3'', ''Cy'', ''60.0'', ''A'']]
          (desk\<lparr>conn := False, server := [False]\<rparr>)) =
       (Inl (RuntimeError ''DB connection failed''),
        say DbConnectionError
          (with_file [[''B2'', ''Bea'', ''50.0'', ''C''], [''C3'', ''Cy'', ''60.0'', ''A'']]
             (desk\<lparr>conn := False\<rparr>)))"
  by (simp add: restore_from_csv_def with_file_def desk_def idle_def parses_def
        backup_header_def restore_row_def row_params_def getitem_def say_def
        execute_def connect_def cursor_execute_def student_row_def
        read_csv_def cell_def infer_dtype_def is_na_def
        na_values_def is_number_def is_true_def is_false_def declib_def dec_int_def
        dec_float_def unsigned_int_def unsigned_dec_def digit_val_def upt_rec)

section \<open>Statistics\<close>

text \<open>What \<open>stats\<close> and \<open>view_students\<close> return on an undisturbed connection.\<close>

lemma marks_column_fetch:
  "marks_column L (map roll_name_marks t) = numeric_marks L t"
  by (simp add: marks_column_def numeric_marks_def col_def roll_name_marks_def)

lemma stats_quiet:
  assumes "conn w" and "faults w = []" and "table w \<noteq> []"
  shows "stats L w =
     (Inr (Some \<lparr>mean = pd_mean (numeric_marks L (table w)),
                  median = pd_median (numeric_marks L (table w)),
                  std = pd_std (numeric_marks L (table w)),
                  toppers = map topper (nlargest 3 (frame L (table w)))\<rparr>),
      say (Toppers (map topper (nlargest 3 (frame L (table w)))))
        (say (if pd_std (numeric_marks L (table w)) = NaN then StdDeviationNA
              else StdDeviation (pd_std (numeric_marks L (table w))))
           (say (MedianMarks (pd_median (numeric_marks L (table w))))
              (say (MeanMarks (pd_mean (numeric_marks L (table w))))
                 (w\<lparr>sent := sent w @ [SelectRollNameMarks]\<rparr>)))))"
  using assms
  by (simp add: stats_def execute_quiet marks_column_fetch frame_def Let_def)

lemma by_roll_Nil [simp]: "(by_roll t = []) = (t = [])"
  by (metis by_roll_def length_0_conv length_sort)

lemma view_students_quiet:
  assumes "conn w" and "faults w = []" and "table w \<noteq> []"
  shows "view_students w =
     (Inr (map row_dict (by_roll (table w))),
      say (PrintRows (map row_dict (by_roll (table w))))
        (w\<lparr>sent := sent w @ [SelectAllOrderByRoll]\<rparr>))"
  using assms
  by (simp add: view_students_def execute_quiet)

text \<open>The coercion turns a value that is no number into NaN, the missing value.\<close>

lemma to_numeric_non_numeric: "non_numeric L v \<Longrightarrow> to_numeric L v = NaN"
  by (cases v) simp_all

text \<open>A row whose marks coerce to NaN does not count in any aggregate.\<close>

lemma dropna_skip:
  "to_numeric L (c_marks r) = NaN \<Longrightarrow>
   dropna (numeric_marks L (xs @ r # ys)) = dropna (numeric_marks L (xs @ ys))"
  by (simp add: dropna_def numeric_marks_def)

lemma aggregates_skip:
  assumes "to_numeric L (c_marks r) = NaN"
  shows "pd_mean (numeric_marks L (xs @ r # ys)) = pd_mean (numeric_marks L (xs @ ys))"
    and "pd_median (numeric_marks L (xs @ r # ys)) = pd_median (numeric_marks L (xs @ ys))"
    and "pd_std (numeric_marks L (xs @ r # ys)) = pd_std (numeric_marks L (xs @ ys))"
  using dropna_skip [OF assms, of xs ys]
  by (simp_all add: pd_mean_def pd_median_def pd_std_def)

text \<open>
  Claim C6. On an undisturbed connection, for a record \<open>r\<close> anywhere in the store whose
  marks are no number (\<open>None\<close>, or a text that does not parse as a number), the mean,
  median and standard deviation of \<open>stats\<close> are those of the marks of the other records
  alone, and equal what \<open>stats\<close> returns for the store without \<open>r\<close> (the record
  counts as missing, not as zero); \<open>view_students\<close> still returns and prints the row
  of \<open>r\<close>.
\<close>

theorem non_numeric_marks_excluded:
  assumes "conn w" and "faults w = []" and "non_numeric L (c_marks r)"
  shows "(\<exists>st. fst (stats L (w\<lparr>table := xs @ r # ys\<rparr>)) = Inr (Some st)
            \<and> mean st = pd_mean (numeric_marks L (xs @ ys))
            \<and> median st = pd_median (numeric_marks L (xs @ ys))
            \<and> std st = pd_std (numeric_marks L (xs @ ys))
            \<and> (xs @ ys \<noteq> [] \<longrightarrow>
                 (\<exists>st'. fst (stats L (w\<lparr>table := xs @ ys\<rparr>)) = Inr (Some st')
                    \<and> mean st = mean st' \<and> median st = median st' \<and> std st = std st')))
         \<and> (\<exists>rows. view_students (w\<lparr>table := xs @ r # ys\<rparr>) =
                      (Inr rows, say (PrintRows rows)
                         (w\<lparr>table := xs @ r # ys, sent := sent w @ [SelectAllOrderByRoll]\<rparr>))
                \<and> row_dict r \<in> set rows)"
proof -
  let ?w = "w\<lparr>table := xs @ r # ys\<rparr>"
  have nan: "to_numeric L (c_marks r) = NaN"
    using assms(3) by (rule to_numeric_non_numeric)
  have q: "conn ?w" "faults ?w = []" "table ?w \<noteq> []"
    using assms(1,2) by simp_all
  let ?st = "\<lparr>mean = pd_mean (numeric_marks L (xs @ r # ys)),
              median = pd_median (numeric_marks L (xs @ r # ys)),
              std = pd_std (numeric_marks L (xs @ r # ys)),
              toppers = map topper (nlargest 3 (frame L (xs @ r # ys)))\<rparr>"
  have st: "fst (stats L ?w) = Inr (Some ?st)"
    by (simp add: stats_quiet [OF q])
  have ag: "mean ?st = pd_mean (numeric_marks L (xs @ ys))"
       "median ?st = pd_median (numeric_marks L (xs @ ys))"
       "std ?st = pd_std (numeric_marks L (xs @ ys))"
    using aggregates_skip [OF nan, of xs ys] by simp_all
  have other: "\<exists>st'. fst (stats L (w\<lparr>table := xs @ ys\<rparr>)) = Inr (Some st')
                 \<and> mean ?st = mean st' \<and> median ?st = median st' \<and> std ?st = std st'"
    if "xs @ ys \<noteq> []"
  proof -
    have q': "conn (w\<lparr>table := xs @ ys\<rparr>)" "faults (w\<lparr>table := xs @ ys\<rparr>) = []"
         "table (w\<lparr>table := xs @ ys\<rparr>) \<noteq> []"
      using assms(1,2) that by simp_all
    show ?thesis
      using aggregates_skip [OF nan, of xs ys]
      by (simp add: stats_quiet [OF q'])
  qed
  have s1: "\<exists>st. fst (stats L ?w) = Inr (Some st)
            \<and> mean st = pd_mean (numeric_marks L (xs @ ys))
            \<and> median st = pd_median (numeric_marks L (xs @ ys))
            \<and> std st = pd_std (numeric_marks L (xs @ ys))
            \<and> (xs @ ys \<noteq> [] \<longrightarrow>
                 (\<exists>st'. fst (stats L (w\<lparr>table := xs @ ys\<rparr>)) = Inr (Some st')
                    \<and> mean st = mean st' \<and> median st = median st' \<and> std st = std st'))"
    using st ag other by blast
  have v: "\<exists>rows. view_students ?w =
                      (Inr rows, say (PrintRows rows)
                         (w\<lparr>table := xs @ r # ys, sent := sent w @ [SelectAllOrderByRoll]\<rparr>))
                \<and> row_dict r \<in> set rows"
    by (simp add: view_students_quiet [OF q] by_roll_def)
  show ?thesis using s1 v by blast
qed

text \<open>
  Marks 50, \<open>absent\<close> and 70: the mean is 60 (it would be 40 with the text counted as
  zero), and the record is among the rows viewed.
\<close>

theorem non_numeric_marks_excluded_witness:
  "fst (stats declib mixed) =
     Inr (Some \<lparr>mean = Fin 60, median = Fin 60, std = Fin (sqrt 200),
                 toppers =
                   [[(''roll_no'', PStr ''A1''), (''name'', PStr ''Al''), (''marks'', PFloat (Fin 70))],
                    [(''roll_no'', PStr ''B2''), (''name'', PStr ''Bea''), (''marks'', PFloat (Fin 50))],
                    [(''roll_no'', PStr ''C3''), (''name'', PStr ''Cy''), (''marks'', PFloat NaN)]]\<rparr>)
   \<and> fst (view_students mixed) =
       Inr [[(''roll_no'', PStr ''A1''), (''name'', PStr ''Al''), (''marks'', PFloat (Fin 70)),
             (''grade'', PStr ''B'')],
            [(''roll_no'', PStr ''B2''), (''name'', PStr ''Bea''), (''marks'', PFloat (Fin 50)),
             (''grade'', PStr ''C'')],
            [(''roll_no'', PStr ''C3''), (''name'', PStr ''Cy''), (''marks'', PStr ''absent''),
             (''grade'', PStr ''F'')]]"
proof -
  let ?r = "\<lparr>c_roll_no = PStr ''C3'', c_name = PStr ''Cy'', c_marks = PStr ''absent'',
             c_grade = PStr ''F''\<rparr>"
  have n: "non_numeric declib (c_marks ?r)"
    by (simp add: declib_def dec_int_def dec_float_def unsigned_int_def unsigned_dec_def
          digit_val_def)
  have c: "conn idle" "faults idle = []"
    by (simp_all add: idle_def)
  have t: "\<exists>st. fst (stats declib
                    (idle\<lparr>table := [student_row ''B2'' ''Bea'' 50 ''C''] @ ?r #
                                     [student_row ''A1'' ''Al'' 70 ''B'']\<rparr>)) = Inr (Some st)"
    using non_numeric_marks_excluded [OF c n, of "[student_row ''B2'' ''Bea'' 50 ''C'']"
            "[student_row ''A1'' ''Al'' 70 ''B'']"]
    by blast
  have k: "(''A1'' :: string) < ''B2''" "(''B2'' :: string) < ''C3''" "(''A1'' :: string) < ''C3''"
    by (simp_all add: less_char_def)
  show ?thesis
    using t k
    by (simp add: mixed_def idle_def student_row_def stats_def view_students_def execute_def
          cursor_execute_def say_def marks_column_def col_def roll_name_marks_def row_dict_def
          by_roll_def declib_def dec_int_def dec_float_def unsigned_int_def unsigned_dec_def
          digit_val_def pd_mean_def pd_median_def pd_std_def dropna_def fsum_def nlargest_def
          topper_def desc_key_def less_eq_prod_def Let_def)
qed

section \<open>The toppers\<close>

text \<open>The key of the descending sort is faithful to the order of the floats.\<close>

lemma fkey_inj: "fkey a = fkey b \<Longrightarrow> a = b"
  by (cases a; cases b) simp_all

lemma desc_key_eq [simp]: "(desc_key a = desc_key b) = (a = b)"
  by (auto simp: desc_key_def prod_eq_iff intro!: fkey_inj)

lemma desc_key_le:
  "desc_key a \<le> desc_key b \<Longrightarrow> a \<noteq> NaN \<Longrightarrow> b \<noteq> NaN \<Longrightarrow> \<not> flt a b"
  by (cases a; cases b) (simp_all add: desc_key_def less_eq_prod_def)

text \<open>The rows with a property among the first rows of a list lead the rows with it.\<close>

lemma filter_take_prefix:
  "filter P (take n xs) = take (length (filter P (take n xs))) (filter P xs)"
proof -
  have "filter P xs = filter P (take n xs) @ filter P (drop n xs)"
    by (metis append_take_drop_id filter_append)
  then show ?thesis by simp
qed

text \<open>
  What \<open>nlargest\<close> selects: as many rows as asked for or all of them, rows of the
  frame, no row left out with larger marks, and rows of equal marks in frame order.
\<close>

lemma nlargest_length: "length (nlargest n fr) = min n (length fr)"
proof -
  have "length (filter (\<lambda>p. snd p \<noteq> NaN) fr) + length (filter (\<lambda>p. snd p = NaN) fr)
          = length fr"
    using sum_length_filter_compl [of "\<lambda>p. snd p \<noteq> NaN" fr] by simp
  then have l: "length (sort_key (\<lambda>p. desc_key (snd p)) (filter (\<lambda>p. snd p \<noteq> NaN) fr) @
                        filter (\<lambda>p. snd p = NaN) fr) = length fr"
    by simp
  show ?thesis
    unfolding nlargest_def length_take l by (rule min.commute)
qed

lemma nlargest_subset: "set (nlargest n fr) \<subseteq> set fr"
  by (auto simp: nlargest_def dest!: in_set_takeD)

lemma nlargest_ties:
  assumes "m \<noteq> NaN"
  shows "filter (\<lambda>p. snd p = m) (nlargest n fr) =
           take (length (filter (\<lambda>p. snd p = m) (nlargest n fr))) (filter (\<lambda>p. snd p = m) fr)"
proof -
  let ?good = "filter (\<lambda>p. snd p \<noteq> NaN) fr"
  let ?bad = "filter (\<lambda>p. snd p = NaN) fr"
  let ?S = "sort_key (\<lambda>p. desc_key (snd p)) ?good"
  have "filter (\<lambda>p. desc_key (snd p) = desc_key m) ?S
          = filter (\<lambda>p. desc_key (snd p) = desc_key m) ?good"
    by (rule sort_key_stable)
  then have s: "filter (\<lambda>p. snd p = m) ?S = filter (\<lambda>p. snd p = m) ?good"
    by simp
  have g: "filter (\<lambda>p. snd p = m) ?good = filter (\<lambda>p. snd p = m) fr"
    using assms by (auto intro: filter_cong)
  have b: "filter (\<lambda>p. snd p = m) ?bad = []"
    using assms by (auto simp: filter_empty_conv)
  have all: "filter (\<lambda>p. snd p = m) (?S @ ?bad) = filter (\<lambda>p. snd p = m) fr"
    using s g b by simp
  have e: "filter (\<lambda>p. snd p = m) (take n (?S @ ?bad)) =
             take (length (filter (\<lambda>p. snd p = m) (take n (?S @ ?bad))))
               (filter (\<lambda>p. snd p = m) (?S @ ?bad))"
    by (rule filter_take_prefix)
  show ?thesis
    unfolding nlargest_def using e unfolding all .
qed

lemma nlargest_top:
  assumes p: "p \<in> set (nlargest n fr)" and q: "q \<in> set fr" "q \<notin> set (nlargest n fr)"
    and qn: "snd q \<noteq> NaN"
  shows "snd p \<noteq> NaN \<and> \<not> flt (snd p) (snd q)"
proof -
  let ?good = "filter (\<lambda>p. snd p \<noteq> NaN) fr"
  let ?bad = "filter (\<lambda>p. snd p = NaN) fr"
  let ?S = "sort_key (\<lambda>p. desc_key (snd p)) ?good"
  have qS: "q \<in> set ?S" using q(1) qn by simp
  have long: "n < length ?S"
  proof (rule ccontr)
    assume "\<not> n < length ?S"
    then have "take n (?S @ ?bad) = ?S @ take (n - length ?S) ?bad" by simp
    then have "q \<in> set (nlargest n fr)" using qS by (simp add: nlargest_def)
    then show False using q(2) by simp
  qed
  then have sel: "nlargest n fr = take n ?S" by (simp add: nlargest_def)
  have pS: "p \<in> set (take n ?S)" using p sel by simp
  then have "p \<in> set ?S" by (rule in_set_takeD)
  then have pn: "snd p \<noteq> NaN" by simp
  have "q \<in> set (take n ?S) \<union> set (drop n ?S)"
    using qS by (metis append_take_drop_id set_append)
  then have qD: "q \<in> set (drop n ?S)" using q(2) sel by simp
  have "sorted (map (\<lambda>p. desc_key (snd p)) ?S)" by (rule sorted_sort_key)
  then have "sorted (map (\<lambda>p. desc_key (snd p)) (take n ?S) @
                     map (\<lambda>p. desc_key (snd p)) (drop n ?S))"
    by (metis append_take_drop_id map_append)
  then have "desc_key (snd p) \<le> desc_key (snd q)"
    using pS qD by (auto simp: sorted_append)
  then show ?thesis using pn qn desc_key_le by blast
qed

text \<open>
  Claim C5, amended. On an undisturbed connection, for a store with at least one row,
  the toppers of \<open>stats\<close> are three rows of the frame (all rows when there are fewer
  than three), none of them has smaller marks than a row with numeric marks that was
  left out, and for every mark the selected rows with that mark are the first rows with
  that mark in the order in which the query returned the rows. The query of \<open>stats\<close>
  has no \<open>ORDER BY\<close>: this order is the store's order of scan.
\<close>

theorem toppers_by_fetch_order:
  assumes "conn w" and "faults w = []" and "table w \<noteq> []"
  shows "\<exists>st sel. fst (stats L w) = Inr (Some st) \<and> toppers st = map topper sel
           \<and> length sel = min 3 (length (table w))
           \<and> set sel \<subseteq> set (frame L (table w))
           \<and> (\<forall>p\<in>set sel. \<forall>q\<in>set (frame L (table w)) - set sel.
                 snd q \<noteq> NaN \<longrightarrow> snd p \<noteq> NaN \<and> \<not> flt (snd p) (snd q))
           \<and> (\<forall>m. m \<noteq> NaN \<longrightarrow>
                 filter (\<lambda>p. snd p = m) sel =
                   take (length (filter (\<lambda>p. snd p = m) sel))
                     (filter (\<lambda>p. snd p = m) (frame L (table w))))"
proof (intro exI conjI)
  let ?sel = "nlargest 3 (frame L (table w))"
  show "fst (stats L w) =
          Inr (Some \<lparr>mean = pd_mean (numeric_marks L (table w)),
                      median = pd_median (numeric_marks L (table w)),
                      std = pd_std (numeric_marks L (table w)),
                      toppers = map topper ?sel\<rparr>)"
    by (simp add: stats_quiet [OF assms])
  show "toppers \<lparr>mean = pd_mean (numeric_marks L (table w)),
                 median = pd_median (numeric_marks L (table w)),
                 std = pd_std (numeric_marks L (table w)),
                 toppers = map topper ?sel\<rparr> = map topper ?sel"
    by simp
  show "length ?sel = min 3 (length (table w))"
    by (simp add: nlargest_length frame_def numeric_marks_def)
  show "set ?sel \<subseteq> set (frame L (table w))"
    by (rule nlargest_subset)
  show "\<forall>p\<in>set ?sel. \<forall>q\<in>set (frame L (table w)) - set ?sel.
          snd q \<noteq> NaN \<longrightarrow> snd p \<noteq> NaN \<and> \<not> flt (snd p) (snd q)"
    using nlargest_top [of _ 3 "frame L (table w)"] by blast
  show "\<forall>m. m \<noteq> NaN \<longrightarrow>
          filter (\<lambda>p. snd p = m) ?sel =
            take (length (filter (\<lambda>p. snd p = m) ?sel))
              (filter (\<lambda>p. snd p = m) (frame L (table w)))"
    using nlargest_ties [of _ 3 "frame L (table w)"] by blast
qed

text \<open>The order of the keys of the store of equal marks.\<close>

lemma tied_keys:
  "(''S1'' :: string) \<le> ''S2''" "(''S1'' :: string) \<le> ''S3''" "(''S1'' :: string) \<le> ''S4''"
  "(''S2'' :: string) \<le> ''S3''" "(''S2'' :: string) \<le> ''S4''" "(''S3'' :: string) \<le> ''S4''"
  "\<not> (''S2'' :: string) \<le> ''S1''" "\<not> (''S3'' :: string) \<le> ''S1''"
  "\<not> (''S4'' :: string) \<le> ''S1''" "\<not> (''S3'' :: string) \<le> ''S2''"
  "\<not> (''S4'' :: string) \<le> ''S2''" "\<not> (''S4'' :: string) \<le> ''S3''"
  by (simp_all add: less_char_def less_eq_char_def)

text \<open>Four records with marks 90, scanned as S4, S2, S3, S1: the first three are the toppers.\<close>

theorem toppers_by_fetch_order_witness:
  "fst (stats declib tied) =
     Inr (Some \<lparr>mean = Fin 90, median = Fin 90, std = Fin 0,
                 toppers =
                   [[(''roll_no'', PStr ''S4''), (''name'', PStr ''Dee''), (''marks'', PFloat (Fin 90))],
                    [(''roll_no'', PStr ''S2''), (''name'', PStr ''Bo''), (''marks'', PFloat (Fin 90))],
                    [(''roll_no'', PStr ''S3''), (''name'', PStr ''Cy''), (''marks'', PFloat (Fin 90))]]\<rparr>)"
proof -
  have c: "conn tied" "faults tied = []" "table tied \<noteq> []"
    by (simp_all add: tied_def idle_def)
  have t: "\<exists>st. fst (stats declib tied) = Inr (Some st)"
    using toppers_by_fetch_order [OF c, of declib] by blast
  show ?thesis
    using t
    by (simp add: tied_def idle_def student_row_def stats_def execute_def
          cursor_execute_def say_def marks_column_def col_def roll_name_marks_def
          pd_mean_def pd_median_def pd_std_def dropna_def fsum_def nlargest_def
          topper_def desc_key_def less_eq_prod_def Let_def)
qed

text \<open>
  Claim C5 as stated fails: with ties broken in ascending order of \<open>roll_no\<close> the
  toppers would be S1, S2, S3; \<open>stats\<close> returns S4, S2, S3.
\<close>

theorem toppers_not_by_roll_no:
  "topper_rolls declib tied = [PStr ''S4'', PStr ''S2'', PStr ''S3'']
   \<and> claimed_topper_rolls declib tied = [PStr ''S1'', PStr ''S2'', PStr ''S3'']
   \<and> topper_rolls declib tied \<noteq> claimed_topper_rolls declib tied"
  by (simp add: topper_rolls_def claimed_topper_rolls_def tied_def idle_def student_row_def
        stats_def execute_def cursor_execute_def say_def marks_column_def col_def
        roll_name_marks_def frame_def numeric_marks_def by_roll_def tied_keys
        pd_mean_def pd_median_def pd_std_def dropna_def fsum_def nlargest_def
        topper_def desc_key_def less_eq_prod_def Let_def)

section \<open>Backup and restore\<close>
























end
